theory Spec2Isabelle
  imports Complex_Main
begin

section \<open>The animated watch face: coordinate transform and frame update\<close>

text \<open>
  The script \<open>Main.py\<close> draws an analog watch and, for every frame of the animation,
  recomputes the three hand positions and the state of a text overlay. This theory embeds
  the computational core of the script: \<open>polar_to_cartesian\<close> (lines 15--23), the
  configuration constants (lines 25--53) and \<open>update_frame\<close> (lines 225--273).

  Numbers. The frame index and \<open>FPS\<close> are Python integers (\<open>int\<close>). The operator \<open>/\<close>
  on two Python integers is true division and yields a float, and every value computed
  from it (\<open>total_seconds\<close>, the hands' angles, the overlay's opacity) is a float. The
  script is embedded at two levels. The first reads floats as the real numbers they
  approximate: \<open>/\<close>, \<open>%\<close> and \<open>//\<close> are the exact quotient, the floored remainder and the
  floored quotient; it says which formulas are computed. The second (the subsection on
  double precision) rounds every operation to the nearest double and has the overflow of
  Python's floats; it says what the interpreter returns at every input.
\<close>

subsection \<open>Python arithmetic\<close>

datatype py_error = ZeroDivisionError | OverflowError

text \<open>
  True division \<open>a / b\<close>, read exactly: it raises on a zero divisor. The rounding of the
  quotient and the \<open>OverflowError\<close> of a quotient beyond the doubles are in
  \<open>int_truediv\<close> below.
\<close>

definition py_truediv :: "real \<Rightarrow> real \<Rightarrow> py_error + real" where
  "py_truediv a b = (if b = 0 then Inl ZeroDivisionError else Inr (a / b))"

text \<open>
  Floor division \<open>a // b\<close> and remainder \<open>a % b\<close> on floats, read exactly. The remainder
  takes the sign of the divisor, so for a positive divisor it is never negative. Every
  call in the script has a non-zero literal as divisor (43200, 3600 or 60), so neither
  can raise there, and the two are written as total functions. In double precision the
  remainder of a negative number can round up to the divisor itself: see \<open>float_rem\<close>
  and \<open>float_floor_div\<close> below.
\<close>

definition py_floordiv :: "real \<Rightarrow> real \<Rightarrow> real" where
  "py_floordiv a b = of_int \<lfloor>a / b\<rfloor>"

definition py_mod :: "real \<Rightarrow> real \<Rightarrow> real" where
  "py_mod a b = a - b * of_int \<lfloor>a / b\<rfloor>"

subsection \<open>Configuration and helper function (section 1 of the script)\<close>

text \<open>\<open>np.deg2rad\<close>, and \<open>polar_to_cartesian(r, theta_deg, center=(0, 0))\<close>.\<close>

definition deg2rad :: "real \<Rightarrow> real" where
  "deg2rad theta_deg = theta_deg * (pi / 180)"

definition polar_to_cartesian :: "real \<Rightarrow> real \<Rightarrow> real \<times> real \<Rightarrow> real \<times> real" where
  "polar_to_cartesian r theta_deg center =
     (let theta_rad = deg2rad theta_deg;
          x = fst center + r * cos theta_rad;
          y = snd center + r * sin theta_rad
      in (x, y))"

text \<open>The default value of the parameter \<open>center\<close>.\<close>

definition polar_to_cartesian0 :: "real \<Rightarrow> real \<Rightarrow> real \<times> real" where
  "polar_to_cartesian0 r theta_deg = polar_to_cartesian r theta_deg (0, 0)"

definition R_DIAL :: real where "R_DIAL = 0.90"
definition HOUR_HAND_LENGTH :: real where "HOUR_HAND_LENGTH = 0.50"
definition MINUTE_HAND_LENGTH :: real where "MINUTE_HAND_LENGTH = 0.75"
definition SECOND_HAND_LENGTH :: real where "SECOND_HAND_LENGTH = 0.85"

text \<open>
  The module-level constants that \<open>update_frame\<close> reads and that the specification treats
  as the configuration: the starting clock time, the frame rate and the duration. The
  script assigns them one after the other (lines 46--53); \<open>TOTAL_FRAMES\<close> is computed
  from the other two. No assignment checks its value, and none can raise.
\<close>

record config =
  START_HOUR :: int
  START_MINUTE :: int
  START_SECOND :: int
  FPS :: int
  ANIM_DURATION :: int
  TOTAL_FRAMES :: int

definition configure :: "int \<Rightarrow> int \<Rightarrow> int \<Rightarrow> int \<Rightarrow> int \<Rightarrow> py_error + config" where
  "configure start_hour start_minute start_second fps anim_duration =
     Inr \<lparr>START_HOUR = start_hour, START_MINUTE = start_minute,
          START_SECOND = start_second, FPS = fps, ANIM_DURATION = anim_duration,
          TOTAL_FRAMES = fps * anim_duration\<rparr>"

text \<open>The values the script assigns: 12:10:30, 24 frames per second, 10 seconds.\<close>

definition script_config :: config where
  "script_config =
     \<lparr>START_HOUR = 12, START_MINUTE = 10, START_SECOND = 30, FPS = 24,
      ANIM_DURATION = 10, TOTAL_FRAMES = 24 * 10\<rparr>"

subsection \<open>The artists that a frame update writes to (section 4 of the script)\<close>

record line2d =
  xdata :: "real list"
  ydata :: "real list"
  linewidth :: real

record text_artist =
  message :: string
  alpha :: real
  position :: "real \<times> real"

record artists =
  hour_line :: line2d
  minute_line :: line2d
  second_line :: line2d
  birthday_text :: text_artist

definition set_data :: "real list \<Rightarrow> real list \<Rightarrow> line2d \<Rightarrow> line2d" where
  "set_data xs ys l = l\<lparr>xdata := xs, ydata := ys\<rparr>"

subsection \<open>\<open>update_frame\<close> (section 5 of the script)\<close>

text \<open>
  Part A, lines 228--235: the elapsed time and its decomposition into
  \<open>(current_h, current_m, current_s)\<close>. The only divisor that is not a literal is \<open>FPS\<close>.
\<close>

definition total_seconds :: "config \<Rightarrow> int \<Rightarrow> py_error + real" where
  "total_seconds cfg frame =
     (case py_truediv (of_int frame) (of_int (FPS cfg)) of
        Inl e \<Rightarrow> Inl e
      | Inr elapsed_seconds \<Rightarrow>
          Inr (of_int (START_HOUR cfg * 3600 + START_MINUTE cfg * 60 + START_SECOND cfg)
               + elapsed_seconds))"

definition break_time :: "real \<Rightarrow> real \<times> real \<times> real" where
  "break_time tot =
     (let current_h = py_floordiv (py_mod tot 43200) 3600;
          rem = py_mod tot 3600;
          current_m = py_floordiv rem 60;
          current_s = py_mod rem 60
      in (current_h, current_m, current_s))"

definition clock_time :: "config \<Rightarrow> int \<Rightarrow> py_error + real \<times> real \<times> real" where
  "clock_time cfg frame =
     (case total_seconds cfg frame of
        Inl e \<Rightarrow> Inl e
      | Inr tot \<Rightarrow> Inr (break_time tot))"

text \<open>Part B, lines 238--240: \<open>(hour_angle, minute_angle, second_angle)\<close>.\<close>

definition hand_angles :: "real \<times> real \<times> real \<Rightarrow> real \<times> real \<times> real" where
  "hand_angles hms =
     (case hms of (current_h, current_m, current_s) \<Rightarrow>
        (90 - (current_h * 30 + (current_m / 60) * 30),
         90 - (current_m * 6 + (current_s / 60) * 6),
         90 - (current_s * 6)))"

text \<open>
  Part D, lines 256--266: \<open>(alpha, y_text)\<close> from the frame and the two thresholds. The
  divisor of the middle branch is a difference of two variables.
\<close>

definition text_overlay :: "int \<Rightarrow> int \<Rightarrow> int \<Rightarrow> py_error + real \<times> real" where
  "text_overlay frame fade_start_frame fade_end_frame =
     (if frame < fade_start_frame then Inr (0.0, -1.0)
      else if frame \<le> fade_end_frame then
        (case py_truediv (of_int (frame - fade_start_frame))
                         (of_int (fade_end_frame - fade_start_frame)) of
           Inl e \<Rightarrow> Inl e
         | Inr t \<Rightarrow> Inr (t, -1.0 + 0.5 * t))
      else Inr (1.0, -0.5))"

text \<open>Parts A and B together: the three angles of a frame.\<close>

definition frame_angles :: "config \<Rightarrow> int \<Rightarrow> py_error + real \<times> real \<times> real" where
  "frame_angles cfg frame =
     (case clock_time cfg frame of
        Inl e \<Rightarrow> Inl e
      | Inr hms \<Rightarrow> Inr (hand_angles hms))"

text \<open>
  The whole function. It reads no artist and overwrites the data of the three lines and
  the text, opacity and position of the message; an exception leaves no result.
\<close>

definition update_frame :: "config \<Rightarrow> int \<Rightarrow> artists \<Rightarrow> py_error + artists" where
  "update_frame cfg frame st =
     (case frame_angles cfg frame of
        Inl e \<Rightarrow> Inl e
      | Inr (hour_angle, minute_angle, second_angle) \<Rightarrow>
         (case polar_to_cartesian0 (HOUR_HAND_LENGTH * R_DIAL) hour_angle of (hx, hy) \<Rightarrow>
          case polar_to_cartesian0 (MINUTE_HAND_LENGTH * R_DIAL) minute_angle of (mx, my) \<Rightarrow>
          case polar_to_cartesian0 (SECOND_HAND_LENGTH * R_DIAL) second_angle of (sx, sy) \<Rightarrow>
          let fade_start_frame = FPS cfg * 1;
              fade_end_frame = FPS cfg * 3
          in (case text_overlay frame fade_start_frame fade_end_frame of
                Inl e \<Rightarrow> Inl e
              | Inr (alpha', y_text) \<Rightarrow>
                  Inr (st\<lparr>hour_line := set_data [0, hx] [0, hy] (hour_line st),
                          minute_line := set_data [0, mx] [0, my] (minute_line st),
                          second_line := set_data [0, sx] [0, sy] (second_line st),
                          birthday_text := (birthday_text st)
                            \<lparr>message := '' Message '', alpha := alpha',
                             position := (0, y_text)\<rparr>\<rparr>))))"

text \<open>
  The artists as section 4 of the script creates them: three lines without data, of
  widths \<open>HOUR_HAND_WIDTH * 100\<close>, \<open>MINUTE_HAND_WIDTH * 100\<close> and
  \<open>SECOND_HAND_WIDTH * 100\<close>, and an empty, transparent text at \<open>(0, -1.0)\<close>.
\<close>

definition HOUR_HAND_WIDTH :: real where "HOUR_HAND_WIDTH = 0.03"
definition MINUTE_HAND_WIDTH :: real where "MINUTE_HAND_WIDTH = 0.02"
definition SECOND_HAND_WIDTH :: real where "SECOND_HAND_WIDTH = 0.005"

definition created_artists :: artists where
  "created_artists =
     \<lparr>hour_line = \<lparr>xdata = [], ydata = [], linewidth = HOUR_HAND_WIDTH * 100\<rparr>,
      minute_line = \<lparr>xdata = [], ydata = [], linewidth = MINUTE_HAND_WIDTH * 100\<rparr>,
      second_line = \<lparr>xdata = [], ydata = [], linewidth = SECOND_HAND_WIDTH * 100\<rparr>,
      birthday_text = \<lparr>message = [], alpha = 0.0, position = (0, -1.0)\<rparr>\<rparr>"

text \<open>What a frame update writes: the part of the artists that the renderer draws from.\<close>

definition drawn :: "artists \<Rightarrow>
    (real list \<times> real list) \<times> (real list \<times> real list) \<times> (real list \<times> real list)
    \<times> string \<times> real \<times> real \<times> real" where
  "drawn st =
     ((xdata (hour_line st), ydata (hour_line st)),
      (xdata (minute_line st), ydata (minute_line st)),
      (xdata (second_line st), ydata (second_line st)),
      message (birthday_text st), alpha (birthday_text st), position (birthday_text st))"

text \<open>
  The distance between two angles in degrees, taken modulo 360: 0 for equal directions,
  at most 180.
\<close>

definition angle_jump :: "real \<Rightarrow> real \<Rightarrow> real" where
  "angle_jump a b = \<bar>py_mod (a - b + 180) 360 - 180\<bar>"

subsection \<open>The time decomposition as the specification words it\<close>




subsection \<open>Double precision\<close>

text \<open>
  The definitions above read the script's arithmetic exactly; they say which formulas the
  script evaluates. What the interpreter returns is a double, and for statements about
  every frame index the difference matters, so parts A and B are embedded a second time
  with the rounding and the overflow of Python's floats.

  A finite double is modelled by the real number it denotes (so \<open>-0.0\<close> and \<open>0.0\<close> are
  one value); \<open>NonFinite\<close> stands for \<open>inf\<close>, \<open>-inf\<close> and \<open>nan\<close>. Every operation of parts
  A and B that gets a non-finite operand returns a non-finite result, so the three need
  not be told apart.
\<close>

datatype pyfloat = Fin real | NonFinite

text \<open>
  Rounding to the nearest double, ties to even: the last place of \<open>x\<close> has the exponent
  \<open>\<lfloor>log 2 \<bar>x\<bar>\<rfloor> - 52\<close>, and not less than \<open>-1074\<close> (the subnormal numbers).
\<close>

definition round_half_even :: "real \<Rightarrow> int" where
  "round_half_even y =
     (let n = \<lfloor>y\<rfloor>; r = y - of_int n
      in if r < 1 / 2 then n else if 1 / 2 < r then n + 1
         else if even n then n else n + 1)"

definition ulp_exponent :: "real \<Rightarrow> int" where
  "ulp_exponent x = max (\<lfloor>log 2 \<bar>x\<bar>\<rfloor> - 52) (- 1074)"

definition nearest_double :: "real \<Rightarrow> real" where
  "nearest_double x =
     (if x = 0 then 0
      else 2 powr of_int (ulp_exponent x)
           * of_int (round_half_even (x / 2 powr of_int (ulp_exponent x))))"

text \<open>
  A value of magnitude \<open>2 ^ 1024 - 2 ^ 970\<close> or more rounds beyond the largest double. A float
  operation then returns \<open>inf\<close>; the division of two integers and the conversion of an
  integer to a float raise \<open>OverflowError\<close> instead.
\<close>

definition overflow_threshold :: real where
  "overflow_threshold = 2 ^ 1024 - 2 ^ 970"

definition to_float :: "real \<Rightarrow> pyfloat" where
  "to_float x = (if \<bar>x\<bar> < overflow_threshold then Fin (nearest_double x) else NonFinite)"

text \<open>\<open>a / b\<close> on two integers: the exact quotient, rounded once.\<close>

definition int_truediv :: "int \<Rightarrow> int \<Rightarrow> py_error + real" where
  "int_truediv a b =
     (if b = 0 then Inl ZeroDivisionError
      else if overflow_threshold \<le> \<bar>of_int a / of_int b\<bar> then Inl OverflowError
      else Inr (nearest_double (of_int a / of_int b)))"

text \<open>The conversion of the integer operand in \<open>int + float\<close>.\<close>

definition int_to_float :: "int \<Rightarrow> py_error + real" where
  "int_to_float n =
     (if overflow_threshold \<le> \<bar>of_int n\<bar> then Inl OverflowError
      else Inr (nearest_double (of_int n)))"

text \<open>
  \<open>+\<close>, \<open>-\<close>, \<open>*\<close> and \<open>/\<close> on floats. The only float division of the script divides by the
  literal 60, so the zero divisor is left out.
\<close>

fun float_add :: "pyfloat \<Rightarrow> pyfloat \<Rightarrow> pyfloat" where
  "float_add (Fin a) (Fin b) = to_float (a + b)"
| "float_add _ _ = NonFinite"

fun float_sub :: "pyfloat \<Rightarrow> pyfloat \<Rightarrow> pyfloat" where
  "float_sub (Fin a) (Fin b) = to_float (a - b)"
| "float_sub _ _ = NonFinite"

fun float_mul :: "pyfloat \<Rightarrow> pyfloat \<Rightarrow> pyfloat" where
  "float_mul (Fin a) (Fin b) = to_float (a * b)"
| "float_mul _ _ = NonFinite"

fun float_div :: "pyfloat \<Rightarrow> pyfloat \<Rightarrow> pyfloat" where
  "float_div (Fin a) (Fin b) = to_float (a / b)"
| "float_div _ _ = NonFinite"

text \<open>
  \<open>%\<close> and \<open>//\<close> on a float and an integer literal, as the interpreter computes them
  (\<open>float_rem\<close> and \<open>_float_div_mod\<close> of \<open>floatobject.c\<close>): C's \<open>fmod\<close>, which is exact and
  has the sign of the dividend; then the divisor is added where the signs differ, and
  that addition rounds. The quotient is \<open>(vx - mod) / wx\<close> in float arithmetic, lowered
  by one where the signs differ, and snapped to the nearest whole number.
\<close>

definition c_fmod :: "real \<Rightarrow> real \<Rightarrow> real" where
  "c_fmod x y =
     x - y * of_int (if 0 \<le> x / y then \<lfloor>x / y\<rfloor> else \<lceil>x / y\<rceil>)"

definition float_rem :: "pyfloat \<Rightarrow> real \<Rightarrow> pyfloat" where
  "float_rem v wx =
     (case v of
        NonFinite \<Rightarrow> NonFinite
      | Fin vx \<Rightarrow>
          (let m = c_fmod vx wx
           in if m \<noteq> 0 then
                (if (wx < 0) \<noteq> (m < 0) then float_add (Fin m) (Fin wx) else Fin m)
              else Fin 0))"

definition float_floor_div :: "pyfloat \<Rightarrow> real \<Rightarrow> pyfloat" where
  "float_floor_div v wx =
     (case v of
        NonFinite \<Rightarrow> NonFinite
      | Fin vx \<Rightarrow>
          (let m = c_fmod vx wx;
               d0 = float_div (float_sub (Fin vx) (Fin m)) (Fin wx);
               d = (if m \<noteq> 0 \<and> (wx < 0) \<noteq> (m < 0) then float_sub d0 (Fin 1) else d0)
           in case d of
                NonFinite \<Rightarrow> NonFinite
              | Fin dv \<Rightarrow>
                  if dv \<noteq> 0 then
                    (let floordiv = of_int \<lfloor>dv\<rfloor>
                     in case float_sub (Fin dv) (Fin floordiv) of
                          Fin r \<Rightarrow> if 0.5 < r then float_add (Fin floordiv) (Fin 1)
                                   else Fin floordiv
                        | NonFinite \<Rightarrow> Fin floordiv)
                  else Fin 0))"

text \<open>Part A in double precision (lines 228--235).\<close>

definition double_total_seconds :: "config \<Rightarrow> int \<Rightarrow> py_error + pyfloat" where
  "double_total_seconds cfg frame =
     (case int_truediv frame (FPS cfg) of
        Inl e \<Rightarrow> Inl e
      | Inr elapsed_seconds \<Rightarrow>
          (case int_to_float
                  (START_HOUR cfg * 3600 + START_MINUTE cfg * 60 + START_SECOND cfg) of
             Inl e \<Rightarrow> Inl e
           | Inr start \<Rightarrow> Inr (float_add (Fin start) (Fin elapsed_seconds))))"

definition double_break_time :: "pyfloat \<Rightarrow> pyfloat \<times> pyfloat \<times> pyfloat" where
  "double_break_time tot =
     (let current_h = float_floor_div (float_rem tot 43200) 3600;
          rem = float_rem tot 3600;
          current_m = float_floor_div rem 60;
          current_s = float_rem rem 60
      in (current_h, current_m, current_s))"

definition double_clock_time :: "config \<Rightarrow> int \<Rightarrow> py_error + pyfloat \<times> pyfloat \<times> pyfloat" where
  "double_clock_time cfg frame =
     (case double_total_seconds cfg frame of
        Inl e \<Rightarrow> Inl e
      | Inr tot \<Rightarrow> Inr (double_break_time tot))"

text \<open>Part B in double precision (lines 238--240).\<close>

definition double_hand_angles ::
    "pyfloat \<times> pyfloat \<times> pyfloat \<Rightarrow> pyfloat \<times> pyfloat \<times> pyfloat" where
  "double_hand_angles hms =
     (case hms of (current_h, current_m, current_s) \<Rightarrow>
        (float_sub (Fin 90)
           (float_add (float_mul current_h (Fin 30))
                      (float_mul (float_div current_m (Fin 60)) (Fin 30))),
         float_sub (Fin 90)
           (float_add (float_mul current_m (Fin 6))
                      (float_mul (float_div current_s (Fin 60)) (Fin 6))),
         float_sub (Fin 90) (float_mul current_s (Fin 6))))"

definition double_frame_angles :: "config \<Rightarrow> int \<Rightarrow> py_error + pyfloat \<times> pyfloat \<times> pyfloat" where
  "double_frame_angles cfg frame =
     (case double_clock_time cfg frame of
        Inl e \<Rightarrow> Inl e
      | Inr hms \<Rightarrow> Inr (double_hand_angles hms))"

section \<open>Properties\<close>

subsection \<open>Remainder and floor division\<close>




subsection \<open>The time decomposition\<close>

lemma total_seconds_ok:
  assumes "FPS cfg \<noteq> 0"
  shows "total_seconds cfg f =
    Inr (of_int (START_HOUR cfg * 3600 + START_MINUTE cfg * 60 + START_SECOND cfg)
         + of_int f / of_int (FPS cfg))"
  using assms by (simp add: total_seconds_def py_truediv_def)


lemma clock_time_ok:
  assumes "FPS cfg \<noteq> 0"
  shows "clock_time cfg f =
    Inr (break_time
          (of_int (START_HOUR cfg * 3600 + START_MINUTE cfg * 60 + START_SECOND cfg)
           + of_int f / of_int (FPS cfg)))"
  by (simp add: clock_time_def total_seconds_ok [OF assms])



subsection \<open>The hands' angles\<close>

lemma frame_angles_ok:
  assumes "FPS cfg \<noteq> 0"
  shows "frame_angles cfg f =
    Inr (hand_angles (break_time
          (of_int (START_HOUR cfg * 3600 + START_MINUTE cfg * 60 + START_SECOND cfg)
           + of_int f / of_int (FPS cfg))))"
  by (simp add: frame_angles_def clock_time_ok [OF assms])



subsection \<open>The coordinate transform\<close>

text \<open>
  Claim C5. For every radius \<open>r\<close>, angle \<open>thetaDeg\<close> and center \<open>(x0, y0)\<close> the
  converter returns \<open>(x0 + r * cos \<theta>, y0 + r * sin \<theta>)\<close> with \<open>\<theta>\<close> the angle in
  radians; with the default center, \<open>polarToCartesian(1, 0) = (1, 0)\<close> and
  \<open>polarToCartesian(1, 90) = (0, 1)\<close>.
\<close>

theorem polar_to_cartesian_formula:
  "polar_to_cartesian r theta_deg (x0, y0) =
     (x0 + r * cos (theta_deg * pi / 180), y0 + r * sin (theta_deg * pi / 180))
   \<and> polar_to_cartesian0 r theta_deg =
     (r * cos (theta_deg * pi / 180), r * sin (theta_deg * pi / 180))
   \<and> polar_to_cartesian0 1 0 = (1, 0)
   \<and> polar_to_cartesian0 1 90 = (0, 1)"
  by (simp add: polar_to_cartesian0_def polar_to_cartesian_def deg2rad_def Let_def)

theorem polar_to_cartesian_formula_witness:
  "polar_to_cartesian 2 180 (1, 1) = (-1, 1) \<and> polar_to_cartesian0 1 0 = (1, 0)"
  using polar_to_cartesian_formula [of 2 180 1 1] by simp

subsection \<open>The text overlay\<close>

lemma text_overlay_ok:
  assumes "fade_start \<noteq> fade_end"
  shows "text_overlay f fade_start fade_end =
    Inr (if f < fade_start then (0, -1)
         else if f \<le> fade_end then
           (of_int (f - fade_start) / of_int (fade_end - fade_start),
            -1 + 0.5 * (of_int (f - fade_start) / of_int (fade_end - fade_start)))
         else (1, -0.5))"
  using assms by (simp add: text_overlay_def py_truediv_def)

lemma update_frame_ok:
  assumes "FPS cfg \<noteq> 0"
  shows "\<exists>st' ov. update_frame cfg f st = Inr st'
           \<and> text_overlay f (FPS cfg * 1) (FPS cfg * 3) = Inr ov
           \<and> alpha (birthday_text st') = fst ov
           \<and> position (birthday_text st') = (0, snd ov)"
proof -
  have ne: "FPS cfg * 1 \<noteq> FPS cfg * 3"
    using assms by simp
  obtain ov where ov: "text_overlay f (FPS cfg * 1) (FPS cfg * 3) = Inr ov"
    using text_overlay_ok [OF ne] by blast
  obtain a y where ay: "ov = (a, y)"
    by (cases ov) auto
  show ?thesis
    using ov ay
    by (simp add: update_frame_def frame_angles_ok [OF assms] Let_def
        split: prod.splits)
qed



subsection \<open>The minute hand's angle modulo 360\<close>

lemma minute_angle_eq:
  "fst (snd (hand_angles (break_time tot))) = 90 - py_mod tot 3600 / 10"
proof -
  define r where "r = py_mod tot 3600"
  define k :: real where "k = of_int \<lfloor>r / 60\<rfloor>"
  have "fst (snd (hand_angles (break_time tot))) = 90 - (k * 6 + ((r - 60 * k) / 60) * 6)"
    by (simp add: hand_angles_def break_time_def Let_def py_floordiv_def r_def k_def
        py_mod_def [of "py_mod tot 3600" 60])
  also have "\<dots> = 90 - r / 10"
    by (simp add: field_simps)
  finally show ?thesis
    by (simp add: r_def)
qed

lemma py_mod_shift:
  assumes "b \<noteq> 0"
  shows "py_mod (x + b * of_int k) b = py_mod x b"
proof -
  have "(x + b * of_int k) / b = x / b + of_int k"
    using assms by (simp add: field_simps)
  then have "\<lfloor>(x + b * of_int k) / b\<rfloor> = \<lfloor>x / b\<rfloor> + k"
    by simp
  then show ?thesis
    by (simp add: py_mod_def algebra_simps)
qed

lemma py_mod_small:
  assumes "0 \<le> x" and "x < b"
  shows "py_mod x b = x"
proof -
  have "0 \<le> x / b" and "x / b < 1"
    using assms by simp_all
  then have "\<lfloor>x / b\<rfloor> = 0"
    by (simp add: floor_unique)
  then show ?thesis
    by (simp add: py_mod_def)
qed

lemma angle_jump_step:
  assumes "\<bar>d\<bar> \<le> 180"
  shows "angle_jump (90 - py_mod (t + d * 10) 3600 / 10) (90 - py_mod t 3600 / 10) = \<bar>d\<bar>"
proof -
  define k where "k = \<lfloor>(t + d * 10) / 3600\<rfloor> - \<lfloor>t / 3600\<rfloor>"
  define p :: real where "p = of_int \<lfloor>(t + d * 10) / 3600\<rfloor>"
  define q :: real where "q = of_int \<lfloor>t / 3600\<rfloor>"
  have e1: "py_mod (t + d * 10) 3600 = t + d * 10 - 3600 * p"
    by (simp add: py_mod_def p_def)
  have e2: "py_mod t 3600 = t - 3600 * q"
    by (simp add: py_mod_def q_def)
  have e3: "of_int k = p - q"
    by (simp add: k_def p_def q_def)
  have "(90 - py_mod (t + d * 10) 3600 / 10) - (90 - py_mod t 3600 / 10) + 180
        = (180 - d) + 360 * of_int k"
    unfolding e1 e2 e3 by (simp add: field_simps)
  then have "angle_jump (90 - py_mod (t + d * 10) 3600 / 10) (90 - py_mod t 3600 / 10)
        = \<bar>py_mod ((180 - d) + 360 * of_int k) 360 - 180\<bar>"
    by (simp only: angle_jump_def)
  also have "py_mod ((180 - d) + 360 * of_int k) 360 = py_mod (180 - d) 360"
    by (rule py_mod_shift) simp
  finally have j: "angle_jump (90 - py_mod (t + d * 10) 3600 / 10) (90 - py_mod t 3600 / 10)
        = \<bar>py_mod (180 - d) 360 - 180\<bar>" .
  show ?thesis
  proof (cases "d = - 180")
    case True
    then have "py_mod (180 - d) 360 = 0"
      by (simp add: py_mod_def)
    with True j show ?thesis by simp
  next
    case False
    with assms have "0 \<le> 180 - d" and "180 - d < 360"
      by simp_all
    then have "py_mod (180 - d) 360 = 180 - d"
      by (rule py_mod_small)
    with j show ?thesis by simp
  qed
qed

subsection \<open>No hidden state\<close>

lemma set_data_twice: "set_data xs ys (set_data xs ys l) = set_data xs ys l"
  by (simp add: set_data_def)

text \<open>
  Claim C8. The frame update reads nothing of the artists it writes to: from any two
  prior states it raises the same error or leaves the same line data (the hands'
  endpoints), message, opacity and position, which therefore depend on the frame index
  and the configuration only; and running it again on its own result changes nothing.
\<close>

theorem update_frame_no_hidden_state:
  "map_sum id drawn (update_frame cfg f st1) = map_sum id drawn (update_frame cfg f st2)
   \<and> (update_frame cfg f st1 = Inr st' \<longrightarrow> update_frame cfg f st' = Inr st')"
proof -
  have a: "map_sum id drawn (update_frame cfg f st1)
             = map_sum id drawn (update_frame cfg f st2)"
    by (simp add: update_frame_def drawn_def set_data_def Let_def
        split: sum.splits prod.splits)
  have b: "update_frame cfg f st' = Inr st'" if "update_frame cfg f st1 = Inr st'"
    using that
    by (auto simp add: update_frame_def set_data_def Let_def
        split: sum.splits prod.splits)
  from a b show ?thesis by blast
qed

theorem update_frame_no_hidden_state_witness:
  "\<exists>st'. update_frame script_config 48 created_artists = Inr st'
      \<and> update_frame script_config 48 st' = Inr st'
      \<and> map_sum id drawn (update_frame script_config 48 st')
          = map_sum id drawn (update_frame script_config 48 created_artists)
      \<and> alpha (birthday_text st') = 1 / 2"
proof -
  have c: "FPS script_config \<noteq> 0" and k: "FPS script_config = 24"
    by (simp_all add: script_config_def)
  obtain st' ov where u: "update_frame script_config 48 created_artists = Inr st'"
    and t: "text_overlay 48 (FPS script_config * 1) (FPS script_config * 3) = Inr ov"
    and al: "alpha (birthday_text st') = fst ov"
    using update_frame_ok [OF c, of 48 created_artists] by blast
  have "text_overlay 48 24 72 = Inr (1 / 2, - 3 / 4)"
    by (simp add: text_overlay_def py_truediv_def)
  with t k have "ov = (1 / 2, - 3 / 4)"
    by simp
  with al have h: "alpha (birthday_text st') = 1 / 2"
    by simp
  from update_frame_no_hidden_state [of script_config 48 created_artists created_artists st'] u
  have i: "update_frame script_config 48 st' = Inr st'"
    by blast
  from update_frame_no_hidden_state [of script_config 48 st' created_artists st']
  have "map_sum id drawn (update_frame script_config 48 st')
          = map_sum id drawn (update_frame script_config 48 created_artists)"
    by blast
  with u i h show ?thesis
    by blast
qed

subsection \<open>Rounding to the nearest double\<close>


lemma round_half_even_of_int [simp]: "round_half_even (of_int n) = n"
  by (simp add: round_half_even_def)

lemma round_half_even_le:
  assumes "y \<le> of_int n"
  shows "round_half_even y \<le> n"
proof (cases "y = of_int n")
  case True
  then show ?thesis by simp
next
  case False
  with assms have "y < of_int n" by simp
  then have "\<lfloor>y\<rfloor> < n"
    by (simp add: floor_less_iff)
  then show ?thesis
    by (auto simp add: round_half_even_def Let_def)
qed

lemma round_half_even_ge:
  assumes "of_int n \<le> y"
  shows "n \<le> round_half_even y"
proof -
  have "n \<le> \<lfloor>y\<rfloor>"
    using assms by (simp add: le_floor_iff)
  then show ?thesis
    by (auto simp add: round_half_even_def Let_def)
qed

lemma binade:
  assumes "x \<noteq> 0"
  shows "2 powr of_int \<lfloor>log 2 \<bar>x\<bar>\<rfloor> \<le> \<bar>x\<bar>"
    and "\<bar>x\<bar> < 2 powr (of_int \<lfloor>log 2 \<bar>x\<bar>\<rfloor> + 1)"
  using assms floor_log_eq_powr_iff [of "\<bar>x\<bar>" 2 "\<lfloor>log 2 \<bar>x\<bar>\<rfloor>"] by simp_all



lemma floor_log_less:
  assumes "x \<noteq> 0" and "\<bar>x\<bar> < 2 powr of_int m"
  shows "\<lfloor>log 2 \<bar>x\<bar>\<rfloor> < m"
proof -
  from binade(1) [OF assms(1)] assms(2)
  have "(2::real) powr of_int \<lfloor>log 2 \<bar>x\<bar>\<rfloor> < 2 powr of_int m"
    by (rule le_less_trans)
  then show ?thesis
    by simp
qed

lemma ulp_small:
  assumes "x \<noteq> 0" and "\<bar>x\<bar> < 2 ^ 53"
  shows "\<exists>k. (2::real) powr of_int (ulp_exponent x) = 1 / 2 ^ k"
proof -
  have "\<bar>x\<bar> < 2 powr of_int 53"
    using assms(2) by simp
  with assms(1) have "\<lfloor>log 2 \<bar>x\<bar>\<rfloor> < 53"
    by (rule floor_log_less)
  then have "ulp_exponent x \<le> 0"
    by (simp add: ulp_exponent_def)
  then obtain k :: nat where k: "ulp_exponent x = - int k"
    by (metis nat_0_le neg_0_le_iff_le minus_minus)
  have "(2::real) powr of_int (- int k) = 1 / 2 ^ k"
    by (simp add: powr_minus powr_realpow inverse_eq_divide)
  with k show ?thesis
    by auto
qed

lemma nearest_double_int_bounds:
  assumes "\<bar>x\<bar> < 2 ^ 53"
  shows "of_int n \<le> x \<Longrightarrow> of_int n \<le> nearest_double x"
    and "x \<le> of_int n \<Longrightarrow> nearest_double x \<le> of_int n"
proof -
  show "of_int n \<le> nearest_double x" if lo: "of_int n \<le> x"
  proof (cases "x = 0")
    case True
    with lo show ?thesis by (simp add: nearest_double_def)
  next
    case False
    from ulp_small [OF False assms] obtain k :: nat
      where k: "2 powr of_int (ulp_exponent x) = 1 / (2::real) ^ k"
      by blast
    have "of_int (n * 2 ^ k) \<le> x * 2 ^ k"
      using lo by simp
    then have "n * 2 ^ k \<le> round_half_even (x * 2 ^ k)"
      by (rule round_half_even_ge)
    then have "of_int (n * 2 ^ k) \<le> (of_int (round_half_even (x * 2 ^ k)) :: real)"
      by (simp only: of_int_le_iff)
    then have "of_int n \<le> of_int (round_half_even (x * 2 ^ k)) / (2::real) ^ k"
      by (simp add: pos_le_divide_eq)
    with False k show ?thesis
      by (simp add: nearest_double_def)
  qed
  show "nearest_double x \<le> of_int n" if hi: "x \<le> of_int n"
  proof (cases "x = 0")
    case True
    with hi show ?thesis by (simp add: nearest_double_def)
  next
    case False
    from ulp_small [OF False assms] obtain k :: nat
      where k: "2 powr of_int (ulp_exponent x) = 1 / (2::real) ^ k"
      by blast
    have "x * 2 ^ k \<le> of_int (n * 2 ^ k)"
      using hi by simp
    then have "round_half_even (x * 2 ^ k) \<le> n * 2 ^ k"
      by (rule round_half_even_le)
    then have "(of_int (round_half_even (x * 2 ^ k)) :: real) \<le> of_int (n * 2 ^ k)"
      by (simp only: of_int_le_iff)
    then have "of_int (round_half_even (x * 2 ^ k)) / (2::real) ^ k \<le> of_int n"
      by (simp add: pos_divide_le_eq)
    with False k show ?thesis
      by (simp add: nearest_double_def)
  qed
qed








lemma float_rem_negative:
  assumes "v < 0" and "0 < wi" and "wi < 2 ^ 53"
  shows "\<exists>r. float_rem (Fin v) (of_int wi) = Fin r \<and> 0 \<le> r \<and> r \<le> of_int wi"
proof -
  define w :: real where "w = of_int wi"
  define m where "m = c_fmod v w"
  have w: "0 < w"
    using assms(2) by (simp add: w_def)
  have wb: "w < 2 ^ 53"
    using assms(3) by (metis w_def of_int_less_iff of_int_numeral of_int_power)
  have neg: "v / w < 0"
    using assms(1) w by (simp add: divide_neg_pos)
  then have m_eq: "m = v - w * of_int \<lceil>v / w\<rceil>"
    by (simp add: m_def c_fmod_def)
  have "of_int \<lceil>v / w\<rceil> < v / w + 1" and "v / w \<le> of_int \<lceil>v / w\<rceil>"
    by linarith+
  then have "w * of_int \<lceil>v / w\<rceil> < w * (v / w + 1)" and "w * (v / w) \<le> w * of_int \<lceil>v / w\<rceil>"
    using w by (simp_all only: mult_less_cancel_left_pos mult_le_cancel_left_pos)
  then have mr: "- w < m" "m \<le> 0"
    using w by (simp_all add: m_eq algebra_simps)
  show ?thesis
  proof (cases "m = 0")
    case True
    then show ?thesis
      using w by (simp add: float_rem_def Let_def m_def [symmetric] w_def [symmetric])
  next
    case False
    with mr have lt: "m < 0" by simp
    have r: "0 \<le> m + w" "m + w \<le> w"
      using mr by simp_all
    then have ab: "\<bar>m + w\<bar> < 2 ^ 53"
      using wb by simp
    have "\<bar>m + w\<bar> < overflow_threshold"
      using ab by (simp add: overflow_threshold_def)
    then have tf: "to_float (m + w) = Fin (nearest_double (m + w))"
      by (simp add: to_float_def)
    have "of_int 0 \<le> nearest_double (m + w)"
      using r by (intro nearest_double_int_bounds(1) [OF ab]) simp
    moreover have "nearest_double (m + w) \<le> of_int wi"
      using r by (intro nearest_double_int_bounds(2) [OF ab]) (simp add: w_def)
    ultimately show ?thesis
      using False lt w tf
      by (simp add: float_rem_def Let_def m_def [symmetric] w_def [symmetric])
  qed
qed

lemma nearest_double_eval:
  assumes "(2::real) powr of_int e \<le> \<bar>x\<bar>" and "\<bar>x\<bar> < 2 powr (of_int e + 1)"
    and "- 1022 \<le> e"
  shows "nearest_double x =
    2 powr of_int (e - 52) * of_int (round_half_even (x / 2 powr of_int (e - 52)))"
proof -
  have "0 < (2::real) powr of_int e"
    by simp
  with assms(1) have x: "0 < \<bar>x\<bar>"
    by linarith
  then have "\<lfloor>log 2 \<bar>x\<bar>\<rfloor> = e"
    using assms(1,2) by (simp add: floor_log_eq_powr_iff)
  then have "ulp_exponent x = e - 52"
    using assms(3) by (simp add: ulp_exponent_def)
  with x show ?thesis
    by (simp add: nearest_double_def)
qed


lemma nearest_double_eval_small:
  assumes "1 / 2 ^ n \<le> \<bar>x\<bar>" and "\<bar>x\<bar> < 2 / 2 ^ n" and "n \<le> 1022"
  shows "nearest_double x = of_int (round_half_even (x * (2 ^ n * 2 ^ 52))) / (2 ^ n * 2 ^ 52)"
proof -
  have p: "(2::real) powr (- real n) = 1 / 2 ^ n"
    by (simp add: powr_minus powr_realpow inverse_eq_divide)
  have "(2::real) powr (- real n + 1) = 2 powr (- real n) * 2 powr 1"
    by (simp only: powr_add)
  then have q: "(2::real) powr (- real n + 1) = 2 / 2 ^ n"
    by (simp add: p)
  have "(2::real) powr (- real n - 52) = 2 powr (- real n) / 2 powr 52"
    by (simp only: powr_diff)
  then have r: "(2::real) powr (- real n - 52) = 1 / (2 ^ n * 2 ^ 52)"
    by (simp add: p)
  have "nearest_double x =
    2 powr of_int (- int n - 52) * of_int (round_half_even (x / 2 powr of_int (- int n - 52)))"
  proof (rule nearest_double_eval)
    show "2 powr real_of_int (- int n) \<le> \<bar>x\<bar>"
      using assms(1) p by simp
    show "\<bar>x\<bar> < 2 powr (real_of_int (- int n) + 1)"
      using assms(2) q by simp
    show "- 1022 \<le> - int n"
      using assms(3) by simp
  qed
  moreover have "real_of_int (- int n - 52) = - real n - 52"
    by simp
  ultimately have "nearest_double x =
    (1 / (2 ^ n * 2 ^ 52)) * of_int (round_half_even (x / (1 / (2 ^ n * 2 ^ 52))))"
    by (simp only: r)
  then show ?thesis
    by simp
qed

subsection \<open>The decomposition in double precision\<close>








subsection \<open>Division by zero in the interpolation\<close>




subsection \<open>Configuration is not validated\<close>

text \<open>
  Claim C9, as the specification states it, fails: a negative frame rate and a zero
  total frame count are both accepted when the configuration is set up, without error.
\<close>

theorem configure_accepts_malformed:
  "configure 12 10 30 (- 24) 10 =
     Inr \<lparr>START_HOUR = 12, START_MINUTE = 10, START_SECOND = 30, FPS = - 24,
          ANIM_DURATION = 10, TOTAL_FRAMES = - 240\<rparr>
   \<and> configure 12 10 30 24 0 =
     Inr \<lparr>START_HOUR = 12, START_MINUTE = 10, START_SECOND = 30, FPS = 24,
          ANIM_DURATION = 0, TOTAL_FRAMES = 0\<rparr>"
  by (simp add: configure_def)

text \<open>
  Claim C9, amended. Setting up the configuration validates nothing and never fails:
  every integer frame rate and duration is accepted as it is, a negative frame rate and
  a zero total frame count included, and \<open>TOTAL_FRAMES\<close> is their product.
\<close>

theorem configure_never_fails:
  "configure start_hour start_minute start_second fps anim_duration =
     Inr \<lparr>START_HOUR = start_hour, START_MINUTE = start_minute,
          START_SECOND = start_second, FPS = fps, ANIM_DURATION = anim_duration,
          TOTAL_FRAMES = fps * anim_duration\<rparr>
   \<and> (\<forall>e. configure start_hour start_minute start_second fps anim_duration \<noteq> Inl e)"
  by (simp add: configure_def)

theorem configure_never_fails_witness:
  "configure 0 0 0 (- 1) 0 =
     Inr \<lparr>START_HOUR = 0, START_MINUTE = 0, START_SECOND = 0, FPS = - 1,
          ANIM_DURATION = 0, TOTAL_FRAMES = 0\<rparr>
   \<and> configure 0 0 0 (- 1) 0 \<noteq> Inl ZeroDivisionError"
  using configure_never_fails [of 0 0 0 "- 1" 0] by simp

end
